theory Spec2Isabelle
  imports Complex_Main "HOL-Library.Word"
begin

section \<open>The overlay editor (DocumentEditor) as a state machine\<close>

text \<open>
  The component \<open>DocumentEditor\<close> keeps its data in React state variables and in refs.
  Every handler is embedded as a function on a record of that state; the two history
  effects are embedded as functions that are run after each handler (the re-render that
  the handler's state updates cause).  What the browser, the signature pad and pdf-lib
  contribute is an argument of the handler concerned.

  Numbers are JavaScript doubles.  A finite value is modelled as a real and the values a
  division by zero produces are the extra constructors of \<open>jsnum\<close>.  Rounding, the
  overflow of a finite result to \<open>Infinity\<close> and the sign of zero are left out, so \<open>Fin r\<close>
  stands for what the double operation gives up to rounding, and nothing below is
  concluded from a result being finite.
\<close>

subsection \<open>JavaScript values\<close>

datatype jsnum = Fin real | PosInf | NegInf | NaN

fun js_div :: "jsnum \<Rightarrow> jsnum \<Rightarrow> jsnum" where
  "js_div (Fin a) (Fin b) =
     (if b = 0 then (if a = 0 then NaN else if 0 < a then PosInf else NegInf)
      else Fin (a / b))"
| "js_div (Fin a) PosInf = Fin 0"
| "js_div (Fin a) NegInf = Fin 0"
| "js_div PosInf (Fin b) = (if b < 0 then NegInf else PosInf)"
| "js_div NegInf (Fin b) = (if b < 0 then PosInf else NegInf)"
| "js_div _ _ = NaN"

fun js_mul :: "jsnum \<Rightarrow> jsnum \<Rightarrow> jsnum" where
  "js_mul (Fin a) (Fin b) = Fin (a * b)"
| "js_mul (Fin a) PosInf = (if a = 0 then NaN else if 0 < a then PosInf else NegInf)"
| "js_mul (Fin a) NegInf = (if a = 0 then NaN else if 0 < a then NegInf else PosInf)"
| "js_mul PosInf (Fin b) = (if b = 0 then NaN else if 0 < b then PosInf else NegInf)"
| "js_mul NegInf (Fin b) = (if b = 0 then NaN else if 0 < b then NegInf else PosInf)"
| "js_mul PosInf PosInf = PosInf"
| "js_mul PosInf NegInf = NegInf"
| "js_mul NegInf PosInf = NegInf"
| "js_mul NegInf NegInf = PosInf"
| "js_mul _ _ = NaN"

fun js_sub :: "jsnum \<Rightarrow> jsnum \<Rightarrow> jsnum" where
  "js_sub (Fin a) (Fin b) = Fin (a - b)"
| "js_sub (Fin a) PosInf = NegInf"
| "js_sub (Fin a) NegInf = PosInf"
| "js_sub PosInf (Fin b) = PosInf"
| "js_sub NegInf (Fin b) = NegInf"
| "js_sub PosInf NegInf = PosInf"
| "js_sub NegInf PosInf = NegInf"
| "js_sub _ _ = NaN"

text \<open>A string of text is its list of UTF-16 code units; a data URL or a MIME type is
  an ASCII \<open>string\<close>; the bytes of a file are a list of octets.\<close>

type_synonym jsstring = "nat list"
type_synonym bytes = "8 word list"

text \<open>\<open>String.prototype.trim\<close> removes WhiteSpace and LineTerminator code units from
  both ends (ECMAScript, sections 12.2 and 12.3).\<close>

definition is_js_whitespace :: "nat \<Rightarrow> bool" where
  "is_js_whitespace c =
     (c \<in> set [9, 10, 11, 12, 13, 32, 160, 5760, 8232, 8233, 8239, 8287, 12288, 65279]
      \<or> (8192 \<le> c \<and> c \<le> 8202))"

definition js_trim :: "jsstring \<Rightarrow> jsstring" where
  "js_trim v = rev (dropWhile is_js_whitespace (rev (dropWhile is_js_whitespace v)))"

text \<open>\<open>!value.trim()\<close>: the empty string is the only falsy string.\<close>

definition blank :: "jsstring \<Rightarrow> bool" where
  "blank v = (js_trim v = [])"

text \<open>Truthiness of a nullable string (\<open>fileUrl &&\<close>, \<open>signatureData &&\<close>,
  \<open>if (signatureData)\<close>).\<close>

fun truthy :: "string option \<Rightarrow> bool" where
  "truthy None = False"
| "truthy (Some u) = (u \<noteq> [])"

text \<open>\<open>prev.slice(0, e)\<close> and \<open>history[i]\<close> on an array.\<close>

definition js_slice0 :: "'a list \<Rightarrow> int \<Rightarrow> 'a list" where
  "js_slice0 xs e =
     (if e < 0 then take (nat (int (length xs) + e)) xs else take (nat e) xs)"

definition js_index :: "'a list \<Rightarrow> int \<Rightarrow> 'a option" where
  "js_index xs i = (if 0 \<le> i \<and> i < int (length xs) then Some (xs ! nat i) else None)"

datatype js_error = TypeError

subsection \<open>The state of the component\<close>

record text_input =
  input_id :: int
  input_x :: real
  input_y :: real
  input_value :: jsstring

record point =
  pos_x :: real
  pos_y :: real

record dims =
  dim_width :: real
  dim_height :: real

text \<open>The object stored in \<open>tempState\<close> and in \<open>history\<close> has the keys
  \<open>textInputs\<close>, \<open>signatureData\<close>, \<open>signaturePosition\<close>; the component has state
  variables of the same names, so the component's record extends it.\<close>

record snapshot =
  textInputs :: "text_input list"
  signatureData :: "string option"
  signaturePosition :: point

datatype mode = EditMode | InteractMode

record editor = snapshot +
  fileUrl :: "string option"
  pdfBytes :: "bytes option"
  pageDimensions :: dims
  containerHeight :: jsnum
  history :: "snapshot list"
  currentStep :: int
  tempState :: "snapshot option"
  interactionMode :: mode
  pendingChanges :: bool
  debounceTimer :: "(snapshot \<times> int \<times> jsstring) option"
  measureTimers :: "dims list"
  dragging :: "(real \<times> real \<times> point) option"

text \<open>
  \<open>pendingChanges\<close> is the ref of that name.  The last three fields are what the
  closures registered with the browser hold: the pending timer of
  \<open>useDebouncedCallback\<close> (the live state of the render that created the callback, and
  the arguments), the queue of \<open>setTimeout(..., 0)\<close> callbacks of \<open>handleFileChange\<close>
  (each with the page size it closed over), and the \<open>mousemove\<close>/\<open>mouseup\<close> listeners of
  a drag (\<open>startX\<close>, \<open>startY\<close>, \<open>initPos\<close>).
\<close>

definition liveState :: "editor \<Rightarrow> snapshot" where
  "liveState s =
     \<lparr>textInputs = textInputs s, signatureData = signatureData s,
      signaturePosition = signaturePosition s\<rparr>"

definition initialEditor :: editor where
  "initialEditor =
     \<lparr>textInputs = [], signatureData = None,
      signaturePosition = \<lparr>pos_x = 50, pos_y = 50\<rparr>,
      fileUrl = None, pdfBytes = None,
      pageDimensions = \<lparr>dim_width = 0, dim_height = 0\<rparr>,
      containerHeight = Fin 0,
      history = [], currentStep = - 1, tempState = None,
      interactionMode = EditMode, pendingChanges = False,
      debounceTimer = None, measureTimers = [], dragging = None\<rparr>"

text \<open>The preview container exists (\<open>previewContainerRef.current\<close> is set) exactly when
  \<open>fileUrl\<close> is truthy.\<close>

definition previewRendered :: "editor \<Rightarrow> bool" where
  "previewRendered s = truthy (fileUrl s)"

subsection \<open>History: \<open>updateState\<close>, the two effects, undo and redo\<close>

text \<open>\<open>updateState\<close> reads \<open>textInputs\<close>, \<open>signatureData\<close> and \<open>signaturePosition\<close> from
  the render that created it (the argument \<open>closure\<close>) and the ref from the component.\<close>

definition updateState :: "snapshot \<Rightarrow> (editor \<Rightarrow> editor) \<Rightarrow> editor \<Rightarrow> editor" where
  "updateState closure updateFn s =
     updateFn (if \<not> pendingChanges s
               then s\<lparr>tempState := Some closure, pendingChanges := True\<rparr>
               else s)"

text \<open>
  The effects of one render \<open>r\<close> read \<open>tempState\<close> and \<open>currentStep\<close> from \<open>r\<close>, and queue
  updater functions; \<open>s\<close> is the state the queued updaters have produced so far.  An
  effect whose dependencies did not change is skipped by React; both bodies do nothing
  unless \<open>tempState\<close> is set, and a set \<open>tempState\<close> is a fresh object, so running both
  after every render is the same.
\<close>

definition historyEffect1 :: "editor \<Rightarrow> editor \<Rightarrow> editor" where
  "historyEffect1 r s =
     (case tempState r of
        None \<Rightarrow> s
      | Some t \<Rightarrow>
          s\<lparr>history := js_slice0 (history s) (currentStep r + 1) @ [t],
            currentStep := currentStep s + 1,
            tempState := None\<rparr>)"

definition historyEffect2 :: "editor \<Rightarrow> editor \<Rightarrow> editor" where
  "historyEffect2 r s =
     (case tempState r of
        None \<Rightarrow> s
      | Some t \<Rightarrow>
          if pendingChanges s
          then s\<lparr>history := js_slice0 (history s) (currentStep r + 1) @ [t],
                 currentStep := currentStep s + 1,
                 tempState := None,
                 pendingChanges := False\<rparr>
          else s)"

definition flushEffects :: "editor \<Rightarrow> editor" where
  "flushEffects r = historyEffect2 r (historyEffect1 r r)"

definition applyState :: "snapshot \<Rightarrow> editor \<Rightarrow> editor" where
  "applyState state s =
     s\<lparr>textInputs := textInputs state,
       signatureData := signatureData state,
       signaturePosition := signaturePosition state\<rparr>"

definition handleUndo :: "editor \<Rightarrow> js_error + editor" where
  "handleUndo s =
     (if 0 < currentStep s
      then (case js_index (history s) (currentStep s - 1) of
              None \<Rightarrow> Inl TypeError
            | Some previousState \<Rightarrow>
                Inr (applyState previousState (s\<lparr>currentStep := currentStep s - 1\<rparr>)))
      else Inr s)"

definition handleRedo :: "editor \<Rightarrow> js_error + editor" where
  "handleRedo s =
     (if currentStep s < int (length (history s)) - 1
      then (case js_index (history s) (currentStep s + 1) of
              None \<Rightarrow> Inl TypeError
            | Some nextState \<Rightarrow>
                Inr (applyState nextState (s\<lparr>currentStep := currentStep s + 1\<rparr>)))
      else Inr s)"

subsection \<open>Text boxes\<close>

definition deleteTextInput :: "int \<Rightarrow> editor \<Rightarrow> editor" where
  "deleteTextInput i s =
     updateState (liveState s)
       (\<lambda>u. u\<lparr>textInputs := filter (\<lambda>inp. input_id inp \<noteq> i) (textInputs u)\<rparr>) s"

definition clearAll :: "editor \<Rightarrow> editor" where
  "clearAll s =
     updateState (liveState s)
       (\<lambda>u. u\<lparr>textInputs := [], signatureData := None,
              signaturePosition := \<lparr>pos_x = 50, pos_y = 50\<rparr>\<rparr>) s"

text \<open>\<open>now\<close> is \<open>Date.now()\<close>; \<open>rectLeft\<close> and \<open>rectTop\<close> are \<open>left\<close> and \<open>top\<close>
  of the container's bounding rectangle.\<close>

definition handlePreviewClick :: "int \<Rightarrow> real \<Rightarrow> real \<Rightarrow> real \<Rightarrow> real \<Rightarrow> editor \<Rightarrow> editor" where
  "handlePreviewClick now clientX clientY rectLeft rectTop s =
     (if \<not> previewRendered s then s
      else updateState (liveState s)
             (\<lambda>u. u\<lparr>textInputs := textInputs u @
                      [\<lparr>input_id = now, input_x = clientX - rectLeft,
                        input_y = clientY - rectTop, input_value = []\<rparr>]\<rparr>) s)"

definition setValue :: "int \<Rightarrow> jsstring \<Rightarrow> text_input list \<Rightarrow> text_input list" where
  "setValue i v inputs =
     map (\<lambda>inp. if input_id inp = i then inp\<lparr>input_value := v\<rparr> else inp) inputs"

text \<open>The \<open>onChange\<close> of a text box: the value is stored at once, and the debounced
  \<open>handleTextChange\<close> of this render replaces the pending timer.\<close>

definition onChange :: "int \<Rightarrow> jsstring \<Rightarrow> editor \<Rightarrow> editor" where
  "onChange i v s =
     s\<lparr>textInputs := setValue i v (textInputs s),
       debounceTimer := Some (liveState s, i, v)\<rparr>"

text \<open>The timer fires after 300 ms: \<open>handleTextChange\<close>'s callback runs.\<close>

definition handleTextChange :: "editor \<Rightarrow> editor" where
  "handleTextChange s =
     (case debounceTimer s of
        None \<Rightarrow> s
      | Some (closure, i, v) \<Rightarrow>
          updateState closure (\<lambda>u. u\<lparr>textInputs := setValue i v (textInputs u)\<rparr>)
            (s\<lparr>debounceTimer := None\<rparr>))"

subsection \<open>The signature\<close>

text \<open>The signature is rendered 150 px wide (\<open>width: '150px'\<close>) and drawn 150 units wide
  into the page.\<close>

definition signatureWidth :: real where
  "signatureWidth = 150"

text \<open>\<open>pad\<close> is \<open>None\<close> when \<open>sigPadRef.current\<close> is missing or the pad is empty, and the
  data URL of the pad otherwise.\<close>

definition handleCaptureSignature :: "string option \<Rightarrow> editor \<Rightarrow> string option \<times> editor" where
  "handleCaptureSignature pad s =
     (case pad of
        None \<Rightarrow> (Some ''Please draw a signature first!'', s)
      | Some dataUrl \<Rightarrow>
          (None, s\<lparr>signatureData := Some dataUrl,
                   signaturePosition := \<lparr>pos_x = 50, pos_y = 50\<rparr>\<rparr>))"

definition handleSignatureMouseDown :: "real \<Rightarrow> real \<Rightarrow> editor \<Rightarrow> editor" where
  "handleSignatureMouseDown clientX clientY s =
     s\<lparr>dragging := Some (clientX, clientY, signaturePosition s)\<rparr>"

text \<open>\<open>cw\<close> and \<open>ch\<close> are the width and height of the container's bounding rectangle.\<close>

definition handleMouseMove :: "real \<Rightarrow> real \<Rightarrow> real \<Rightarrow> real \<Rightarrow> editor \<Rightarrow> js_error + editor" where
  "handleMouseMove clientX clientY cw ch s =
     (case dragging s of
        None \<Rightarrow> Inr s
      | Some (startX, startY, initPos) \<Rightarrow>
          if \<not> previewRendered s then Inl TypeError
          else
            let dx = clientX - startX;
                dy = clientY - startY;
                maxX = cw - 160;
                maxY = ch - 60
            in Inr (s\<lparr>signaturePosition :=
                      \<lparr>pos_x = max 10 (min (pos_x initPos + dx) maxX),
                       pos_y = max 10 (min (pos_y initPos + dy) maxY)\<rparr>\<rparr>))"

definition handleMouseUp :: "editor \<Rightarrow> editor" where
  "handleMouseUp s = s\<lparr>dragging := None\<rparr>"

subsection \<open>Loading a file\<close>

text \<open>What \<open>PDFDocument.load\<close> gives: it throws, or the document has no page
  (\<open>getPages()[0]\<close> is undefined), or the first page has a size.\<close>

datatype pdf_doc = LoadThrows | NoPages | FirstPage real real

record picked_file =
  file_type :: string
  file_buffer :: "bytes option"
  file_doc :: pdf_doc
  file_url :: string

text \<open>\<open>file_buffer\<close> is \<open>None\<close> when \<open>file.arrayBuffer()\<close> rejects; \<open>file_url\<close> is what
  \<open>URL.createObjectURL\<close> returns.  The result is the alert shown, if any, and the state.\<close>

definition handleFileChange :: "picked_file option \<Rightarrow> editor \<Rightarrow> string option \<times> editor" where
  "handleFileChange file s =
     (case file of
        None \<Rightarrow> (Some ''Please select a valid PDF file.'', s)
      | Some f \<Rightarrow>
          if file_type f \<noteq> ''application/pdf''
          then (Some ''Please select a valid PDF file.'', s)
          else
            let s1 = s\<lparr>history := [], currentStep := - 1, tempState := None\<rparr>
            in (case file_buffer f of
                  None \<Rightarrow> (Some ''Failed to load PDF'', s1)
                | Some arrayBuffer \<Rightarrow>
                    let s2 = s1\<lparr>pdfBytes := Some arrayBuffer, fileUrl := Some (file_url f)\<rparr>
                    in (case file_doc f of
                          FirstPage w h \<Rightarrow>
                            (None, s2\<lparr>pageDimensions := \<lparr>dim_width = w, dim_height = h\<rparr>,
                                      measureTimers := measureTimers s2 @
                                        [\<lparr>dim_width = w, dim_height = h\<rparr>]\<rparr>)
                        | _ \<Rightarrow> (Some ''Failed to load PDF'', s2))))"

text \<open>The \<open>setTimeout\<close> callback of a load; \<open>containerWidth\<close> is the container's
  \<open>offsetWidth\<close>.\<close>

definition measureContainer :: "real \<Rightarrow> editor \<Rightarrow> editor" where
  "measureContainer containerWidth s =
     (case measureTimers s of
        [] \<Rightarrow> s
      | d # rest \<Rightarrow>
          if previewRendered s
          then s\<lparr>measureTimers := rest,
                 containerHeight :=
                   js_mul (js_div (Fin (dim_height d)) (Fin (dim_width d))) (Fin containerWidth)\<rparr>
          else s\<lparr>measureTimers := rest\<rparr>)"

subsection \<open>Coordinates and export\<close>

text \<open>\<open>offs\<close> is \<open>offsetWidth\<close> and \<open>offsetHeight\<close> of the preview container, or \<open>None\<close>
  when the ref is null (reading a property of null throws).\<close>

definition convertToPdfCoordinates ::
    "(real \<times> real) option \<Rightarrow> dims \<Rightarrow> real \<Rightarrow> real \<Rightarrow> (jsnum \<times> jsnum) option" where
  "convertToPdfCoordinates offs pd x y =
     (case offs of
        None \<Rightarrow> None
      | Some (offsetWidth, offsetHeight) \<Rightarrow>
          Some (js_mul (js_div (Fin x) (Fin offsetWidth)) (Fin (dim_width pd)),
                js_sub (Fin (dim_height pd))
                  (js_mul (js_div (Fin y) (Fin offsetHeight)) (Fin (dim_height pd)))))"

text \<open>The calls made on the first page: \<open>drawImage\<close> with \<open>x\<close>, \<open>y\<close>, \<open>width\<close>,
  \<open>height\<close>, and \<open>drawText\<close> with the text, \<open>x\<close>, \<open>y\<close> and \<open>size\<close> (the colour is always
  black).\<close>

datatype draw_call =
    DrawImage jsnum jsnum jsnum jsnum
  | DrawText jsstring jsnum jsnum real

record save_env =
  env_doc :: pdf_doc
  env_png :: "(real \<times> real) option"
  env_offset :: "real \<times> real"
  env_drawImage_ok :: bool
  env_drawText_ok :: "jsstring \<Rightarrow> bool"
  env_save_ok :: bool

text \<open>
  \<open>env_doc\<close>: what \<open>PDFDocument.load(pdfBytes)\<close> gives; \<open>env_png\<close>: width and height of
  the image \<open>embedPng\<close> returns, \<open>None\<close> when it throws; \<open>env_offset\<close>: the container's
  \<open>offsetWidth\<close> and \<open>offsetHeight\<close>; the three flags: whether \<open>drawImage\<close>, \<open>drawText\<close>
  and \<open>save\<close> return rather than throw.
\<close>

datatype save_outcome = Alerted string | Downloaded

definition embedSignature ::
    "save_env \<Rightarrow> (real \<times> real) option \<Rightarrow> bool \<Rightarrow> editor \<Rightarrow> bool \<times> draw_call list" where
  "embedSignature env offs page s =
     (if truthy (signatureData s)
      then (case env_png env of
              None \<Rightarrow> (False, [])
            | Some (imgW, imgH) \<Rightarrow>
                (case convertToPdfCoordinates offs (pageDimensions s)
                        (pos_x (signaturePosition s)) (pos_y (signaturePosition s)) of
                   None \<Rightarrow> (False, [])
                 | Some (sigPdfX, sigPdfY) \<Rightarrow>
                     if \<not> page then (False, [])
                     else
                       let h = js_mul (Fin imgH) (js_div (Fin signatureWidth) (Fin imgW))
                       in (env_drawImage_ok env,
                           [DrawImage sigPdfX (js_sub sigPdfY h) (Fin signatureWidth) h])))
      else (True, []))"

fun drawTexts ::
    "save_env \<Rightarrow> (real \<times> real) option \<Rightarrow> dims \<Rightarrow> bool \<Rightarrow> text_input list \<Rightarrow> bool \<times> draw_call list" where
  "drawTexts env offs pd page [] = (True, [])"
| "drawTexts env offs pd page (t # ts) =
     (if blank (input_value t) then drawTexts env offs pd page ts
      else (case convertToPdfCoordinates offs pd (input_x t) (input_y t) of
              None \<Rightarrow> (False, [])
            | Some (pdfX, pdfY) \<Rightarrow>
                if \<not> page then (False, [])
                else if env_drawText_ok env (input_value t)
                then (case drawTexts env offs pd page ts of
                        (ok, calls) \<Rightarrow> (ok, DrawText (input_value t) pdfX pdfY 18 # calls))
                else (False, [DrawText (input_value t) pdfX pdfY 18])))"

text \<open>The body of the \<open>try\<close> after the document is loaded, up to \<open>pdfDoc.save()\<close>:
  whether it got through without a throw, and the calls made on the page, in order.\<close>

definition drawAnnotations :: "save_env \<Rightarrow> editor \<Rightarrow> bool \<times> draw_call list" where
  "drawAnnotations env s =
     (let offs = (if previewRendered s then Some (env_offset env) else None);
          page = (env_doc env \<noteq> NoPages)
      in (case embedSignature env offs page s of
            (ok, calls) \<Rightarrow>
              if \<not> ok then (False, calls)
              else (case drawTexts env offs (pageDimensions s) page (textInputs s) of
                      (ok', calls') \<Rightarrow> (ok', calls @ calls'))))"

text \<open>The result is the state afterwards (no setter is called), what the user sees,
  and the calls made on the page.\<close>

definition handleSavePdf :: "save_env \<Rightarrow> editor \<Rightarrow> editor \<times> save_outcome \<times> draw_call list" where
  "handleSavePdf env s =
     (case pdfBytes s of
        None \<Rightarrow> (s, Alerted ''No PDF loaded.'', [])
      | Some b \<Rightarrow>
          if env_doc env = LoadThrows then (s, Alerted ''Failed to save PDF'', [])
          else (case drawAnnotations env s of
                  (ok, calls) \<Rightarrow>
                    (s, if ok \<and> env_save_ok env then Downloaded
                        else Alerted ''Failed to save PDF'', calls)))"

subsection \<open>Events\<close>

datatype event =
    FileChange "picked_file option"
  | MeasureTick real
  | PreviewClick int real real real real
  | InputChange int jsstring
  | DebounceFire
  | DeleteTextInput int
  | ClearAll
  | Undo
  | Redo
  | CaptureSignature "string option"
  | SignatureMouseDown real real
  | MouseMove real real real real
  | MouseUp
  | SavePdf save_env
  | ToggleMode

text \<open>
  One event: the handler runs, the component renders again and the effects of that render
  run, before the next event is handled.  The handlers with an \<open>await\<close>
  (\<open>handleFileChange\<close>, \<open>handleSavePdf\<close>) are taken as one event each, with what the
  awaited calls give as arguments.  A handler that throws ends the run here.
\<close>

definition rerender :: "js_error + editor \<Rightarrow> js_error + editor" where
  "rerender r = (case r of Inl e \<Rightarrow> Inl e | Inr s \<Rightarrow> Inr (flushEffects s))"

fun handler :: "event \<Rightarrow> editor \<Rightarrow> js_error + editor" where
  "handler (FileChange f) s = Inr (snd (handleFileChange f s))"
| "handler (MeasureTick w) s = Inr (measureContainer w s)"
| "handler (PreviewClick now cx cy l t) s = Inr (handlePreviewClick now cx cy l t s)"
| "handler (InputChange i v) s = Inr (onChange i v s)"
| "handler DebounceFire s = Inr (handleTextChange s)"
| "handler (DeleteTextInput i) s = Inr (deleteTextInput i s)"
| "handler ClearAll s = Inr (clearAll s)"
| "handler Undo s = handleUndo s"
| "handler Redo s = handleRedo s"
| "handler (CaptureSignature pad) s = Inr (snd (handleCaptureSignature pad s))"
| "handler (SignatureMouseDown cx cy) s = Inr (handleSignatureMouseDown cx cy s)"
| "handler (MouseMove cx cy cw ch) s = handleMouseMove cx cy cw ch s"
| "handler MouseUp s = Inr (handleMouseUp s)"
| "handler (SavePdf env) s = Inr (fst (handleSavePdf env s))"
| "handler ToggleMode s =
     Inr (s\<lparr>interactionMode :=
              (if interactionMode s = EditMode then InteractMode else EditMode)\<rparr>)"

definition fire :: "event \<Rightarrow> editor \<Rightarrow> js_error + editor" where
  "fire e s = rerender (handler e s)"

text \<open>
  Which events the page can deliver in a state, from the JSX.  The file input, the
  capture button and the save button are always there, the save button disabled while
  \<open>pdfBytes\<close> is null.  The preview container exists while \<open>fileUrl\<close> is truthy; it and
  the signature image take pointer events in edit mode only.  The input and the delete
  button of a text box, and the Undo, Redo, Clear All and mode buttons, are rendered
  inside each text box and nowhere else, so they exist only while the preview is rendered
  and there is a text box; Undo is disabled while \<open>currentStep <= 0\<close> and Redo while
  \<open>currentStep >= history.length - 1\<close>.  (These can be reached from the keyboard, so the
  mode is not asked for.)  A timer fires while it is pending, and \<open>mousemove\<close> and
  \<open>mouseup\<close> reach the drag's listeners while they are registered.
\<close>

definition boxRendered :: "int \<Rightarrow> editor \<Rightarrow> bool" where
  "boxRendered i s = (previewRendered s \<and> i \<in> input_id ` set (textInputs s))"

definition controlsRendered :: "editor \<Rightarrow> bool" where
  "controlsRendered s = (previewRendered s \<and> textInputs s \<noteq> [])"

fun deliverable :: "event \<Rightarrow> editor \<Rightarrow> bool" where
  "deliverable (FileChange f) s = True"
| "deliverable (MeasureTick w) s = (measureTimers s \<noteq> [])"
| "deliverable (PreviewClick now cx cy l t) s =
     (previewRendered s \<and> interactionMode s = EditMode)"
| "deliverable (InputChange i v) s = boxRendered i s"
| "deliverable DebounceFire s = (debounceTimer s \<noteq> None)"
| "deliverable (DeleteTextInput i) s = boxRendered i s"
| "deliverable ClearAll s = controlsRendered s"
| "deliverable Undo s = (controlsRendered s \<and> 0 < currentStep s)"
| "deliverable Redo s =
     (controlsRendered s \<and> currentStep s < int (length (history s)) - 1)"
| "deliverable (CaptureSignature pad) s = True"
| "deliverable (SignatureMouseDown cx cy) s =
     (previewRendered s \<and> truthy (signatureData s) \<and> interactionMode s = EditMode)"
| "deliverable (MouseMove cx cy cw ch) s = (dragging s \<noteq> None)"
| "deliverable MouseUp s = (dragging s \<noteq> None)"
| "deliverable (SavePdf env) s = (pdfBytes s \<noteq> None)"
| "deliverable ToggleMode s = controlsRendered s"

text \<open>An event the page cannot deliver in a state does not happen: the state stays.\<close>

definition step :: "event \<Rightarrow> editor \<Rightarrow> js_error + editor" where
  "step e s = (if deliverable e s then fire e s else Inr s)"

fun run :: "editor \<Rightarrow> event list \<Rightarrow> js_error + editor" where
  "run s [] = Inr s"
| "run s (e # es) = (case step e s of Inl err \<Rightarrow> Inl err | Inr s' \<Rightarrow> run s' es)"


subsection \<open>Observing a session\<close>

text \<open>What a projection of the state shows after a list of events, \<open>None\<close> when a handler
  threw on the way.\<close>

definition observe :: "(editor \<Rightarrow> 'a) \<Rightarrow> editor \<Rightarrow> event list \<Rightarrow> 'a option" where
  "observe f s evs = (case run s evs of Inl err \<Rightarrow> None | Inr s' \<Rightarrow> Some (f s'))"

text \<open>The texts of the \<open>drawText\<close> calls among the calls made.\<close>

fun drawnTexts :: "draw_call list \<Rightarrow> jsstring list" where
  "drawnTexts [] = []"
| "drawnTexts (DrawText v px py sz # cs) = v # drawnTexts cs"
| "drawnTexts (DrawImage px py w h # cs) = drawnTexts cs"

text \<open>What holds of the history between two events: nothing is pending, and the cursor
  lies between \<open>-1\<close> and the number of snapshots.\<close>

definition historyInv :: "editor \<Rightarrow> bool" where
  "historyInv s =
     (tempState s = None \<and> \<not> pendingChanges s \<and>
      - 1 \<le> currentStep s \<and> currentStep s \<le> int (length (history s)))"

subsection \<open>Example data\<close>

text \<open>A one-page document of 612 by 792 points, and a file pdf-lib cannot parse.\<close>

definition letterPdf :: picked_file where
  "letterPdf =
     \<lparr>file_type = ''application/pdf'', file_buffer = Some [37, 80, 68, 70],
      file_doc = FirstPage 612 792, file_url = ''blob:letter''\<rparr>"

definition brokenPdf :: picked_file where
  "brokenPdf =
     \<lparr>file_type = ''application/pdf'', file_buffer = Some [0, 1, 2],
      file_doc = LoadThrows, file_url = ''blob:broken''\<rparr>"

text \<open>The pad's canvas is 500 by 200, and so is the image of a captured signature.\<close>

definition padImage :: string where
  "padImage = ''data:image/png;base64,iVBORw0KGgo=''"

definition exportEnv :: "real \<times> real \<Rightarrow> save_env" where
  "exportEnv offs =
     \<lparr>env_doc = FirstPage 612 792, env_png = Some (500, 200), env_offset = offs,
      env_drawImage_ok = True, env_drawText_ok = (\<lambda>v. True), env_save_ok = True\<rparr>"

text \<open>The empty state and the states with one and with two empty text boxes.\<close>

definition noBoxes :: snapshot where
  "noBoxes =
     \<lparr>textInputs = [], signatureData = None,
      signaturePosition = \<lparr>pos_x = 50, pos_y = 50\<rparr>\<rparr>"

definition box1 :: text_input where
  "box1 = \<lparr>input_id = 1, input_x = 10, input_y = 20, input_value = []\<rparr>"

definition box2 :: text_input where
  "box2 = \<lparr>input_id = 2, input_x = 30, input_y = 40, input_value = []\<rparr>"

definition oneBox :: snapshot where
  "oneBox = noBoxes\<lparr>textInputs := [box1]\<rparr>"

definition twoBoxes :: snapshot where
  "twoBoxes = noBoxes\<lparr>textInputs := [box1, box2]\<rparr>"

text \<open>Loading the document and clicking twice into the preview, whose bounding rectangle
  starts at \<open>(100, 200)\<close>.\<close>

definition oneClick :: "event list" where
  "oneClick = [FileChange (Some letterPdf), PreviewClick 1 110 220 100 200]"

definition twoClicks :: "event list" where
  "twoClicks =
     [FileChange (Some letterPdf), PreviewClick 1 110 220 100 200,
      PreviewClick 2 130 240 100 200]"

text \<open>Typing \<open>H\<close> and then \<open>Hi\<close> into the first box; the timer fires after the second
  keystroke.\<close>

definition boxH :: text_input where
  "boxH = box1\<lparr>input_value := [72]\<rparr>"

definition typing :: "event list" where
  "typing = [InputChange 1 [72], InputChange 1 [72, 105], DebounceFire]"

text \<open>The state after capturing a signature and loading the document, before the
  container has been measured.\<close>

definition signedEditor :: editor where
  "signedEditor =
     initialEditor\<lparr>signatureData := Some padImage,
       fileUrl := Some ''blob:letter'', pdfBytes := Some [37, 80, 68, 70],
       pageDimensions := \<lparr>dim_width = 612, dim_height = 792\<rparr>,
       measureTimers := [\<lparr>dim_width = 612, dim_height = 792\<rparr>]\<rparr>"

definition signing :: "event list" where
  "signing = [CaptureSignature (Some padImage), FileChange (Some letterPdf)]"



text \<open>A drag of the signature: the pointer goes down at \<open>(300, 400)\<close>, moves by
  \<open>(1000, 1000)\<close> in a preview of 800 by 1000, and is released.\<close>

definition dragFar :: "event list" where
  "dragFar = [SignatureMouseDown 300 400, MouseMove 1300 1400 800 1000, MouseUp]"

text \<open>Three text boxes on the signed document: \<open>Hi\<close>, a space and a tab, and nothing.\<close>

definition typedEditor :: editor where
  "typedEditor =
     signedEditor\<lparr>textInputs :=
       [\<lparr>input_id = 1, input_x = 400, input_y = 500, input_value = [72, 105]\<rparr>,
        \<lparr>input_id = 2, input_x = 30, input_y = 40, input_value = [32, 9]\<rparr>,
        \<lparr>input_id = 3, input_x = 50, input_y = 60, input_value = []\<rparr>]\<rparr>"

section \<open>Properties\<close>

lemmas handler_defs = step_def fire_def boxRendered_def controlsRendered_def rerender_def flushEffects_def historyEffect1_def
  historyEffect2_def updateState_def liveState_def js_slice0_def js_index_def applyState_def
  previewRendered_def handleUndo_def handleRedo_def deleteTextInput_def clearAll_def
  handlePreviewClick_def setValue_def onChange_def handleTextChange_def
  handleCaptureSignature_def handleSignatureMouseDown_def handleMouseMove_def
  handleMouseUp_def handleFileChange_def measureContainer_def Let_def

lemmas export_defs = handleSavePdf_def drawAnnotations_def embedSignature_def
  convertToPdfCoordinates_def signatureWidth_def

subsection \<open>The history between two events\<close>

text \<open>Once \<open>tempState\<close> is null again the effects do nothing, so one pass of the effects
  after a handler is all there is.\<close>

lemma flushEffects_idle: "tempState s = None \<Longrightarrow> flushEffects s = s"
  by (simp add: flushEffects_def historyEffect1_def historyEffect2_def)

lemma double_append_length:
  "n \<le> length h + 1 \<Longrightarrow> length (take n (take n h @ [t]) @ [t]) = n + 1"
  by (auto simp: min_def)

lemma double_append_last: "last (take n (take n h @ [t]) @ [t]) = t"
  by simp

lemma commit_history:
  assumes "historyInv s"
    and "\<And>u. history (f u) = history u" "\<And>u. currentStep (f u) = currentStep u"
    and "\<And>u. tempState (f u) = tempState u" "\<And>u. pendingChanges (f u) = pendingChanges u"
  shows "history (flushEffects (updateState cl f s)) =
           take (nat (currentStep s + 1)) (take (nat (currentStep s + 1)) (history s) @ [cl]) @ [cl]"
    and "currentStep (flushEffects (updateState cl f s)) = currentStep s + 2"
    and "tempState (flushEffects (updateState cl f s)) = None"
    and "pendingChanges (flushEffects (updateState cl f s)) = False"
  using assms
  by (simp_all add: historyInv_def flushEffects_def historyEffect1_def historyEffect2_def
      updateState_def js_slice0_def)

lemma commit_inv:
  assumes "historyInv s"
    and "\<And>u. history (f u) = history u" "\<And>u. currentStep (f u) = currentStep u"
    and "\<And>u. tempState (f u) = tempState u" "\<And>u. pendingChanges (f u) = pendingChanges u"
  shows "historyInv (flushEffects (updateState cl f s))"
    and "currentStep (flushEffects (updateState cl f s)) =
           int (length (history (flushEffects (updateState cl f s))))"
    and "history (flushEffects (updateState cl f s)) \<noteq> []"
    and "last (history (flushEffects (updateState cl f s))) = cl"
proof -
  let ?s' = "flushEffects (updateState cl f s)"
  let ?n = "nat (currentStep s + 1)"
  have n: "?n \<le> length (history s) + 1" and c: "- 1 \<le> currentStep s"
    using assms(1) by (auto simp: historyInv_def)
  have h: "history ?s' = take ?n (take ?n (history s) @ [cl]) @ [cl]"
    and cs: "currentStep ?s' = currentStep s + 2"
    and ts: "tempState ?s' = None" and pc: "pendingChanges ?s' = False"
    using commit_history [OF assms] by blast+
  have len: "length (history ?s') = ?n + 1"
    unfolding h using n by (rule double_append_length)
  show "currentStep ?s' = int (length (history ?s'))"
    using len cs c by simp
  then show "historyInv ?s'"
    using ts pc c cs by (simp add: historyInv_def)
  show "history ?s' \<noteq> []" unfolding h by simp
  show "last (history ?s') = cl" unfolding h by simp
qed

lemma handleSavePdf_state: "fst (handleSavePdf env s) = s"
  by (simp add: handleSavePdf_def split: option.split prod.split)

lemma deleteTextInput_inv: "historyInv s \<Longrightarrow> historyInv (flushEffects (deleteTextInput i s))"
  unfolding deleteTextInput_def by (rule commit_inv(1)) simp_all

lemma clearAll_inv: "historyInv s \<Longrightarrow> historyInv (flushEffects (clearAll s))"
  unfolding clearAll_def by (rule commit_inv(1)) simp_all

lemma handlePreviewClick_inv:
  "historyInv s \<Longrightarrow> historyInv (flushEffects (handlePreviewClick now cx cy l t s))"
proof (cases "previewRendered s")
  case True
  assume "historyInv s"
  then have "historyInv (flushEffects (updateState (liveState s)
             (\<lambda>u. u\<lparr>textInputs := textInputs u @
                      [\<lparr>input_id = now, input_x = cx - l,
                        input_y = cy - t, input_value = []\<rparr>]\<rparr>) s))"
    by (rule commit_inv(1)) simp_all
  then show ?thesis using True by (simp add: handlePreviewClick_def)
next
  case False
  assume "historyInv s"
  then show ?thesis using False
    by (simp add: handlePreviewClick_def historyInv_def flushEffects_idle)
qed

lemma handleTextChange_inv:
  "historyInv s \<Longrightarrow> historyInv (flushEffects (handleTextChange s))"
proof (cases "debounceTimer s")
  case None
  assume "historyInv s"
  then show ?thesis using None
    by (simp add: handleTextChange_def historyInv_def flushEffects_idle)
next
  case (Some p)
  assume a: "historyInv s"
  obtain cl i v where p: "p = (cl, i, v)" by (cases p) auto
  have "historyInv (s\<lparr>debounceTimer := None\<rparr>)"
    using a by (simp add: historyInv_def)
  then have "historyInv (flushEffects (updateState cl
             (\<lambda>u. u\<lparr>textInputs := setValue i v (textInputs u)\<rparr>) (s\<lparr>debounceTimer := None\<rparr>)))"
    by (rule commit_inv(1)) simp_all
  then show ?thesis using Some p by (simp add: handleTextChange_def)
qed

lemma handleFileChange_inv: "historyInv s \<Longrightarrow> historyInv (snd (handleFileChange f s))"
  by (simp add: handleFileChange_def historyInv_def Let_def split: option.split pdf_doc.split)

lemma measureContainer_inv: "historyInv s \<Longrightarrow> historyInv (measureContainer w s)"
  by (simp add: measureContainer_def historyInv_def split: list.split)

lemma handleCaptureSignature_inv:
  "historyInv s \<Longrightarrow> historyInv (snd (handleCaptureSignature pad s))"
  by (simp add: handleCaptureSignature_def historyInv_def split: option.split)

lemma handleUndo_inv: "historyInv s \<Longrightarrow> handleUndo s = Inr s' \<Longrightarrow> historyInv s'"
  by (auto simp: handleUndo_def historyInv_def applyState_def split: if_splits option.splits)

lemma handleRedo_inv: "historyInv s \<Longrightarrow> handleRedo s = Inr s' \<Longrightarrow> historyInv s'"
  by (auto simp: handleRedo_def historyInv_def applyState_def split: if_splits option.splits)

lemma handleMouseMove_inv:
  "historyInv s \<Longrightarrow> handleMouseMove cx cy cw ch s = Inr s' \<Longrightarrow> historyInv s'"
  by (auto simp: handleMouseMove_def historyInv_def Let_def split: if_splits option.splits)

lemma flushEffects_inv: "historyInv s \<Longrightarrow> flushEffects s = s"
  by (simp add: historyInv_def flushEffects_idle)

lemma fire_inv: "historyInv s \<Longrightarrow> fire e s = Inr s' \<Longrightarrow> historyInv s'"
proof (cases e)
  case (FileChange f)
  assume "historyInv s" "fire e s = Inr s'"
  then show ?thesis using FileChange handleFileChange_inv [of s f]
    by (auto simp: fire_def rerender_def flushEffects_inv)
next
  case (MeasureTick w)
  assume "historyInv s" "fire e s = Inr s'"
  then show ?thesis using MeasureTick measureContainer_inv [of s w]
    by (auto simp: fire_def rerender_def flushEffects_inv)
next
  case (PreviewClick now cx cy l t)
  assume "historyInv s" "fire e s = Inr s'"
  then show ?thesis using PreviewClick handlePreviewClick_inv [of s now cx cy l t]
    by (auto simp: fire_def rerender_def)
next
  case (InputChange i v)
  assume "historyInv s" "fire e s = Inr s'"
  then show ?thesis using InputChange
    by (auto simp: fire_def rerender_def onChange_def historyInv_def flushEffects_idle)
next
  case DebounceFire
  assume "historyInv s" "fire e s = Inr s'"
  then show ?thesis using DebounceFire handleTextChange_inv [of s]
    by (auto simp: fire_def rerender_def)
next
  case (DeleteTextInput i)
  assume "historyInv s" "fire e s = Inr s'"
  then show ?thesis using DeleteTextInput deleteTextInput_inv [of s i]
    by (auto simp: fire_def rerender_def)
next
  case ClearAll
  assume "historyInv s" "fire e s = Inr s'"
  then show ?thesis using ClearAll clearAll_inv [of s]
    by (auto simp: fire_def rerender_def)
next
  case Undo
  assume a: "historyInv s" "fire e s = Inr s'"
  then obtain u where u: "handleUndo s = Inr u" "s' = flushEffects u"
    using Undo by (auto simp: fire_def rerender_def split: sum.splits)
  from a(1) u(1) have "historyInv u" by (rule handleUndo_inv)
  then show ?thesis using u(2) by (simp add: flushEffects_inv)
next
  case Redo
  assume a: "historyInv s" "fire e s = Inr s'"
  then obtain u where u: "handleRedo s = Inr u" "s' = flushEffects u"
    using Redo by (auto simp: fire_def rerender_def split: sum.splits)
  from a(1) u(1) have "historyInv u" by (rule handleRedo_inv)
  then show ?thesis using u(2) by (simp add: flushEffects_inv)
next
  case (CaptureSignature pad)
  assume "historyInv s" "fire e s = Inr s'"
  then show ?thesis using CaptureSignature handleCaptureSignature_inv [of s pad]
    by (auto simp: fire_def rerender_def flushEffects_inv)
next
  case (SignatureMouseDown cx cy)
  assume "historyInv s" "fire e s = Inr s'"
  then show ?thesis using SignatureMouseDown
    by (auto simp: fire_def rerender_def handleSignatureMouseDown_def historyInv_def flushEffects_idle)
next
  case (MouseMove cx cy cw ch)
  assume a: "historyInv s" "fire e s = Inr s'"
  then obtain u where u: "handleMouseMove cx cy cw ch s = Inr u" "s' = flushEffects u"
    using MouseMove by (auto simp: fire_def rerender_def split: sum.splits)
  from a(1) u(1) have "historyInv u" by (rule handleMouseMove_inv)
  then show ?thesis using u(2) by (simp add: flushEffects_inv)
next
  case MouseUp
  assume "historyInv s" "fire e s = Inr s'"
  then show ?thesis using MouseUp
    by (auto simp: fire_def rerender_def handleMouseUp_def historyInv_def flushEffects_idle)
next
  case (SavePdf env)
  assume "historyInv s" "fire e s = Inr s'"
  then show ?thesis using SavePdf
    by (auto simp: fire_def rerender_def handleSavePdf_state flushEffects_inv)
next
  case ToggleMode
  assume "historyInv s" "fire e s = Inr s'"
  then show ?thesis using ToggleMode
    by (auto simp: fire_def rerender_def historyInv_def flushEffects_idle)
qed

lemma step_inv: "historyInv s \<Longrightarrow> step e s = Inr s' \<Longrightarrow> historyInv s'"
  using fire_inv [of s e s'] by (auto simp: step_def split: if_splits)

lemma run_inv: "historyInv s \<Longrightarrow> run s evs = Inr s' \<Longrightarrow> historyInv s'"
proof (induction evs arbitrary: s)
  case Nil
  then show ?case by simp
next
  case (Cons e evs)
  then obtain s1 where s1: "step e s = Inr s1" "run s1 evs = Inr s'"
    by (auto split: sum.splits)
  from Cons.prems(1) s1(1) have "historyInv s1" by (rule step_inv)
  then show ?case using s1(2) by (rule Cons.IH)
qed

lemma initial_inv: "historyInv initialEditor"
  by (simp add: historyInv_def initialEditor_def)

subsection \<open>Blank text and the calls of an export\<close>

lemma all_dropWhile: "(\<forall>x\<in>set (dropWhile P xs). P x) = (\<forall>x\<in>set xs. P x)"
  by (induction xs) auto

lemma blank_iff: "blank v = list_all is_js_whitespace v"
  by (simp add: blank_def js_trim_def dropWhile_eq_Nil_conv all_dropWhile list_all_iff)

lemma embedSignature_texts: "drawnTexts (snd (embedSignature env offs page s)) = []"
  by (simp add: embedSignature_def Let_def split: option.split prod.split)

lemma drawnTexts_append: "drawnTexts (cs @ ds) = drawnTexts cs @ drawnTexts ds"
  by (induction cs rule: drawnTexts.induct) simp_all

lemma drawTexts_texts:
  "drawTexts env offs pd page ts = (ok, calls) \<Longrightarrow>
     (\<exists>rest. map input_value (filter (\<lambda>t. \<not> blank (input_value t)) ts) = drawnTexts calls @ rest)
     \<and> (ok \<longrightarrow> drawnTexts calls = map input_value (filter (\<lambda>t. \<not> blank (input_value t)) ts))"
proof (induction ts arbitrary: ok calls)
  case Nil
  then show ?case by auto
next
  case (Cons t ts)
  show ?case
  proof (cases "blank (input_value t)")
    case True
    then show ?thesis using Cons by simp
  next
    case False
    show ?thesis
    proof (cases "convertToPdfCoordinates offs pd (input_x t) (input_y t)")
      case None
      then show ?thesis using Cons.prems False by auto
    next
      case (Some p)
      obtain pdfX pdfY where p: "p = (pdfX, pdfY)" by (cases p)
      show ?thesis
      proof (cases "page \<and> env_drawText_ok env (input_value t)")
        case True
        obtain ok' calls' where r: "drawTexts env offs pd page ts = (ok', calls')"
          by (cases "drawTexts env offs pd page ts")
        have eq: "ok = ok'" "calls = DrawText (input_value t) pdfX pdfY 18 # calls'"
          using Cons.prems False Some p True r by auto
        from Cons.IH [OF r] show ?thesis using False eq by auto
      next
        case False2: False
        then show ?thesis using Cons.prems False Some p by (auto split: if_splits)
      qed
    qed
  qed
qed

lemma drawTexts_all:
  assumes "\<forall>t\<in>set ts. \<not> blank (input_value t) \<longrightarrow> env_drawText_ok env (input_value t)"
  shows "drawTexts env (Some (ow, oh)) pd True ts =
     (True,
      map (\<lambda>t. DrawText (input_value t)
                 (js_mul (js_div (Fin (input_x t)) (Fin ow)) (Fin (dim_width pd)))
                 (js_sub (Fin (dim_height pd))
                    (js_mul (js_div (Fin (input_y t)) (Fin oh)) (Fin (dim_height pd))))
                 18)
        (filter (\<lambda>t. \<not> blank (input_value t)) ts))"
  using assms
proof (induction ts)
  case Nil
  show ?case by simp
next
  case (Cons t ts)
  have c: "convertToPdfCoordinates (Some (ow, oh)) pd (input_x t) (input_y t) =
      Some (js_mul (js_div (Fin (input_x t)) (Fin ow)) (Fin (dim_width pd)),
            js_sub (Fin (dim_height pd))
              (js_mul (js_div (Fin (input_y t)) (Fin oh)) (Fin (dim_height pd))))"
    unfolding convertToPdfCoordinates_def by simp
  have ih: "drawTexts env (Some (ow, oh)) pd True ts =
     (True,
      map (\<lambda>t. DrawText (input_value t)
                 (js_mul (js_div (Fin (input_x t)) (Fin ow)) (Fin (dim_width pd)))
                 (js_sub (Fin (dim_height pd))
                    (js_mul (js_div (Fin (input_y t)) (Fin oh)) (Fin (dim_height pd))))
                 18)
        (filter (\<lambda>t. \<not> blank (input_value t)) ts))"
    using Cons by simp
  show ?case
  proof (cases "blank (input_value t)")
    case True
    then show ?thesis using ih by simp
  next
    case False
    then have "env_drawText_ok env (input_value t)" using Cons.prems by simp
    then show ?thesis using False ih c by simp
  qed
qed

lemma embedSignature_ok:
  assumes "truthy (signatureData s) \<longrightarrow> env_png env \<noteq> None \<and> env_drawImage_ok env"
  shows "\<exists>pre. embedSignature env (Some offs) True s = (True, pre) \<and> drawnTexts pre = []"
proof (cases "truthy (signatureData s)")
  case False
  then show ?thesis by (simp add: embedSignature_def)
next
  case True
  then obtain p where p: "env_png env = Some p" and ok: "env_drawImage_ok env"
    using assms by auto
  obtain imgW imgH where wh: "p = (imgW, imgH)" by (cases p)
  obtain u v where uv: "convertToPdfCoordinates (Some offs) (pageDimensions s)
      (pos_x (signaturePosition s)) (pos_y (signaturePosition s)) = Some (u, v)"
    by (cases offs) (simp add: convertToPdfCoordinates_def)
  show ?thesis using True p ok wh uv by (simp add: embedSignature_def Let_def)
qed

subsection \<open>What an export does not look at\<close>






subsection \<open>Undo and redo\<close>

text \<open>
  Claim C1 (undo/redo round trip), evaluated on the code.  After two committed actions
  (two clicks that add a text box each, \<open>N = 2\<close>) and one undo (\<open>k = 1\<close>) the live state
  is the one-box state, which is not the snapshot at index \<open>N - 1 - k = 0\<close> (the empty
  state); one redo after it changes nothing, so the live state is still the one-box
  state and not the two-box state that held before the undo.
\<close>

theorem undo_redo_loses_latest_state:
  "observe liveState initialEditor twoClicks = Some twoBoxes
   \<and> observe liveState initialEditor (twoClicks @ [Undo]) = Some oneBox
   \<and> observe history initialEditor (twoClicks @ [Undo]) = Some [noBoxes, oneBox, oneBox]
   \<and> observe currentStep initialEditor (twoClicks @ [Undo]) = Some 2
   \<and> observe liveState initialEditor (twoClicks @ [Undo, Redo]) = Some oneBox
   \<and> oneBox \<noteq> twoBoxes \<and> oneBox \<noteq> noBoxes"
  by (simp add: handler_defs observe_def initialEditor_def letterPdf_def noBoxes_def box1_def
      box2_def oneBox_def twoBoxes_def twoClicks_def)

text \<open>
  Claim C2 (one snapshot and one cursor step per action), evaluated on the code.  Both
  history effects run for the same pending snapshot.  The first click after loading takes
  the cursor from \<open>-1\<close> to \<open>1\<close> with one snapshot stored; deleting a box in the two-box
  state takes the cursor from \<open>3\<close> to \<open>5\<close> and stores the same snapshot twice.
\<close>

theorem commit_advances_cursor_twice:
  "observe currentStep initialEditor [FileChange (Some letterPdf)] = Some (- 1)
   \<and> observe history initialEditor [FileChange (Some letterPdf)] = Some []
   \<and> observe currentStep initialEditor oneClick = Some 1
   \<and> observe history initialEditor oneClick = Some [noBoxes]
   \<and> observe currentStep initialEditor twoClicks = Some 3
   \<and> observe history initialEditor twoClicks = Some [noBoxes, oneBox, oneBox]
   \<and> observe currentStep initialEditor (twoClicks @ [DeleteTextInput 2]) = Some 5
   \<and> observe history initialEditor (twoClicks @ [DeleteTextInput 2])
       = Some [noBoxes, oneBox, oneBox, twoBoxes, twoBoxes]"
  by (simp add: handler_defs observe_def initialEditor_def letterPdf_def noBoxes_def box1_def
      box2_def oneBox_def twoBoxes_def oneClick_def twoClicks_def)

text \<open>
  Claim C3 (one history entry for each of capture, drag, delete and edit), evaluated on
  the code.  Capturing a signature and dragging it to \<open>(640, 940)\<close> leave the history
  empty, also after the pointer is released; deleting a text box and a debounced text
  edit each store two entries.
\<close>

theorem signature_actions_not_committed:
  "observe history initialEditor signing = Some []
   \<and> observe signatureData initialEditor signing = Some (Some padImage)
   \<and> observe history initialEditor (signing @ dragFar) = Some []
   \<and> observe currentStep initialEditor (signing @ dragFar) = Some (- 1)
   \<and> observe signaturePosition initialEditor (signing @ dragFar)
       = Some \<lparr>pos_x = 640, pos_y = 940\<rparr>
   \<and> observe history initialEditor twoClicks = Some [noBoxes, oneBox, oneBox]
   \<and> observe history initialEditor (twoClicks @ [DeleteTextInput 1])
       = Some [noBoxes, oneBox, oneBox, twoBoxes, twoBoxes]
   \<and> observe history initialEditor (twoClicks @ typing)
       = Some [noBoxes, oneBox, oneBox, twoBoxes\<lparr>textInputs := [boxH, box2]\<rparr>,
               twoBoxes\<lparr>textInputs := [boxH, box2]\<rparr>]"
  by (simp add: handler_defs observe_def initialEditor_def letterPdf_def padImage_def
      noBoxes_def box1_def box2_def oneBox_def twoBoxes_def twoClicks_def boxH_def typing_def
      signing_def dragFar_def)


text \<open>
  Claim C8 (\<open>0 \<le> cursor < length snapshots\<close> whenever there are snapshots), evaluated on
  the code.  After loading a document and one click there is one snapshot and the cursor
  is \<open>1\<close>; after a second click there are three snapshots and the cursor is \<open>3\<close>.
\<close>

theorem cursor_reaches_length:
  "observe history initialEditor oneClick = Some [noBoxes]
   \<and> observe currentStep initialEditor oneClick = Some 1
   \<and> \<not> (1 < int (length [noBoxes]))
   \<and> observe history initialEditor twoClicks = Some [noBoxes, oneBox, oneBox]
   \<and> observe currentStep initialEditor twoClicks = Some 3
   \<and> \<not> (3 < int (length [noBoxes, oneBox, oneBox]))"
  by (simp add: handler_defs observe_def initialEditor_def letterPdf_def noBoxes_def box1_def
      box2_def oneBox_def twoBoxes_def oneClick_def twoClicks_def)

subsection \<open>Coordinates\<close>

text \<open>
  Claim C5: for a preview of nonzero width \<open>pw\<close> and height \<open>ph\<close> the transform gives
  \<open>pdfX = (x / pw) * PW\<close> and \<open>pdfY = PH - (y / ph) * PH\<close>; with \<open>pw = 800\<close>,
  \<open>ph = 1000\<close>, \<open>PW = 612\<close>, \<open>PH = 792\<close> it maps \<open>(0, 0)\<close> to \<open>(0, 792)\<close>,
  \<open>(800, 1000)\<close> to \<open>(612, 0)\<close> and \<open>(400, 500)\<close> to \<open>(306, 396)\<close>.
\<close>

theorem convertToPdfCoordinates_formula:
  assumes "pw \<noteq> 0" and "ph \<noteq> 0"
  shows "convertToPdfCoordinates (Some (pw, ph)) \<lparr>dim_width = PW, dim_height = PH\<rparr> x y
           = Some (Fin ((x / pw) * PW), Fin (PH - (y / ph) * PH))
     \<and> convertToPdfCoordinates (Some (800, 1000)) \<lparr>dim_width = 612, dim_height = 792\<rparr> 0 0
           = Some (Fin 0, Fin 792)
     \<and> convertToPdfCoordinates (Some (800, 1000)) \<lparr>dim_width = 612, dim_height = 792\<rparr> 800 1000
           = Some (Fin 612, Fin 0)
     \<and> convertToPdfCoordinates (Some (800, 1000)) \<lparr>dim_width = 612, dim_height = 792\<rparr> 400 500
           = Some (Fin 306, Fin 396)"
  using assms by (simp add: convertToPdfCoordinates_def)

text \<open>Witness for C5: the point \<open>(200, 250)\<close> of the same preview.\<close>

theorem convertToPdfCoordinates_formula_witness:
  "(800::real) \<noteq> 0 \<and> (1000::real) \<noteq> 0
   \<and> convertToPdfCoordinates (Some (800, 1000)) \<lparr>dim_width = 612, dim_height = 792\<rparr> 200 250
        = Some (Fin 153, Fin 594)"
  using convertToPdfCoordinates_formula [of 800 1000 612 792 200 250] by simp




subsection \<open>Dragging the signature\<close>

text \<open>
  Claim C6 as stated fails: dragging from \<open>(50, 50)\<close> by \<open>(1000, 1000)\<close> inside a preview
  of 800 by 1000 ends at \<open>x = 640\<close>, which is not \<open>800 - signatureWidth = 650\<close>.
\<close>

theorem drag_clamp_counterexample:
  "handleMouseMove 1300 1400 800 1000 (handleSignatureMouseDown 300 400 signedEditor)
     = Inr (handleSignatureMouseDown 300 400 signedEditor
             \<lparr>signaturePosition := \<lparr>pos_x = 640, pos_y = 940\<rparr>\<rparr>)
   \<and> (640::real) \<noteq> 800 - signatureWidth"
  by (simp add: handler_defs initialEditor_def signedEditor_def signatureWidth_def)

text \<open>
  Claim C6 as amended: during a drag the new position is
  \<open>max 10 (min (start + delta) maxX)\<close> with \<open>maxX = width - (signatureWidth + 10)\<close>, and
  the same for \<open>y\<close> with \<open>maxY = height - 60\<close>; it is never below \<open>10\<close>, and not beyond
  \<open>maxX\<close> and \<open>maxY\<close> when the preview is at least 170 wide and 70 high.
\<close>

theorem drag_clamp_bounds:
  assumes "dragging s = Some (startX, startY, initPos)" and "previewRendered s"
  shows "\<exists>nx ny. handleMouseMove cx cy cw ch s =
                   Inr (s\<lparr>signaturePosition := \<lparr>pos_x = nx, pos_y = ny\<rparr>\<rparr>)
     \<and> nx = max 10 (min (pos_x initPos + (cx - startX)) (cw - (signatureWidth + 10)))
     \<and> ny = max 10 (min (pos_y initPos + (cy - startY)) (ch - 60))
     \<and> 10 \<le> nx \<and> 10 \<le> ny
     \<and> (170 \<le> cw \<longrightarrow> nx \<le> cw - 160)
     \<and> (70 \<le> ch \<longrightarrow> ny \<le> ch - 60)"
  using assms by (simp add: handleMouseMove_def Let_def signatureWidth_def)

text \<open>Witness for C6 as amended: the drag of the claim ends at \<open>(640, 940)\<close>.\<close>

theorem drag_clamp_bounds_witness:
  "dragging (handleSignatureMouseDown 300 400 signedEditor)
     = Some (300, 400, \<lparr>pos_x = 50, pos_y = 50\<rparr>)
   \<and> previewRendered (handleSignatureMouseDown 300 400 signedEditor)
   \<and> handleMouseMove 1300 1400 800 1000 (handleSignatureMouseDown 300 400 signedEditor)
     = Inr (handleSignatureMouseDown 300 400 signedEditor
             \<lparr>signaturePosition := \<lparr>pos_x = 640, pos_y = 940\<rparr>\<rparr>)"
proof -
  let ?s = "handleSignatureMouseDown 300 400 signedEditor"
  have d: "dragging ?s = Some (300, 400, \<lparr>pos_x = 50, pos_y = 50\<rparr>)"
    and r: "previewRendered ?s"
    by (simp_all add: handler_defs initialEditor_def signedEditor_def)
  from drag_clamp_bounds [OF d r, of 1300 1400 800 1000] d r show ?thesis
    by (simp add: signatureWidth_def)
qed

subsection \<open>A file that does not parse\<close>

text \<open>
  Claim C9 as stated fails: a file that pdf-lib cannot parse, selected in the two-box
  state, empties the history, sets the cursor to \<open>-1\<close> and replaces the stored bytes and
  the preview URL.
\<close>

theorem load_failure_counterexample:
  "observe history initialEditor twoClicks = Some [noBoxes, oneBox, oneBox]
   \<and> observe history initialEditor (twoClicks @ [FileChange (Some brokenPdf)]) = Some []
   \<and> observe currentStep initialEditor twoClicks = Some 3
   \<and> observe currentStep initialEditor (twoClicks @ [FileChange (Some brokenPdf)]) = Some (- 1)
   \<and> observe pdfBytes initialEditor twoClicks = Some (Some [37, 80, 68, 70])
   \<and> observe pdfBytes initialEditor (twoClicks @ [FileChange (Some brokenPdf)])
       = Some (Some [0, 1, 2])
   \<and> observe fileUrl initialEditor twoClicks = Some (Some ''blob:letter'')
   \<and> observe fileUrl initialEditor (twoClicks @ [FileChange (Some brokenPdf)])
       = Some (Some ''blob:broken'')"
  by (simp add: handler_defs observe_def initialEditor_def letterPdf_def brokenPdf_def
      noBoxes_def box1_def box2_def oneBox_def twoBoxes_def twoClicks_def)

text \<open>
  Claim C9 as amended: when \<open>PDFDocument.load\<close> throws on a selected PDF file whose bytes
  could be read, the alert \<open>Failed to load PDF\<close> is shown and the state is the one before
  the attempt except that the history is empty, the cursor is \<open>-1\<close>, no snapshot is
  pending, and the stored bytes and the preview URL are those of the new file.
\<close>

theorem load_failure_state:
  assumes "file_type f = ''application/pdf''" and "file_buffer f = Some b"
    and "file_doc f = LoadThrows"
  shows "handleFileChange (Some f) s =
     (Some ''Failed to load PDF'',
      s\<lparr>history := [], currentStep := - 1, tempState := None,
        pdfBytes := Some b, fileUrl := Some (file_url f)\<rparr>)"
  using assms by (simp add: handleFileChange_def)

text \<open>Witness for C9 as amended: the unparsable file selected in the signed state.\<close>

theorem load_failure_state_witness:
  "file_type brokenPdf = ''application/pdf'' \<and> file_buffer brokenPdf = Some [0, 1, 2]
   \<and> file_doc brokenPdf = LoadThrows
   \<and> handleFileChange (Some brokenPdf) signedEditor =
     (Some ''Failed to load PDF'',
      signedEditor\<lparr>pdfBytes := Some [0, 1, 2], fileUrl := Some ''blob:broken''\<rparr>)"
  using load_failure_state [of brokenPdf "[0, 1, 2]" signedEditor]
  by (simp add: brokenPdf_def signedEditor_def initialEditor_def)

subsection \<open>Export of the text boxes\<close>

text \<open>
  Claim C10: an export leaves the state, and so the list of text boxes, as it was.  The
  texts of its \<open>drawText\<close> calls are, in order, an initial part of the values of the text
  boxes that are not made of whitespace only, so no call is made for an empty or
  whitespace-only value.  When a document is loaded, the preview is rendered and none of
  the calls into pdf-lib throws (the document loads and has a first page, the signature,
  if there is one, is embedded and drawn, every text that is not blank is drawn, the
  document is saved), the export gets to the download, and after the calls for the
  signature it has made exactly one \<open>drawText\<close> call, at the transformed position and
  with size 18, for every text box whose value is not blank, in the order of the boxes.
\<close>

theorem save_omits_blank_text:
  "case handleSavePdf env s of (s', outcome, calls) \<Rightarrow>
     s' = s
     \<and> (\<exists>rest. map input_value
                 (filter (\<lambda>t. \<not> list_all is_js_whitespace (input_value t)) (textInputs s))
               = drawnTexts calls @ rest)
     \<and> (outcome = Downloaded \<longrightarrow>
          drawnTexts calls =
            map input_value
              (filter (\<lambda>t. \<not> list_all is_js_whitespace (input_value t)) (textInputs s)))
     \<and> (pdfBytes s \<noteq> None \<and> previewRendered s \<and> env_doc env = FirstPage W H
         \<and> (truthy (signatureData s) \<longrightarrow> env_png env \<noteq> None \<and> env_drawImage_ok env)
         \<and> (\<forall>t\<in>set (textInputs s).
               \<not> list_all is_js_whitespace (input_value t) \<longrightarrow>
               env_drawText_ok env (input_value t))
         \<and> env_save_ok env \<longrightarrow>
         outcome = Downloaded
         \<and> (\<exists>pre. drawnTexts pre = []
              \<and> calls = pre @
                  map (\<lambda>t. DrawText (input_value t)
                        (js_mul (js_div (Fin (input_x t)) (Fin (fst (env_offset env))))
                           (Fin (dim_width (pageDimensions s))))
                        (js_sub (Fin (dim_height (pageDimensions s)))
                           (js_mul (js_div (Fin (input_y t)) (Fin (snd (env_offset env))))
                              (Fin (dim_height (pageDimensions s)))))
                        18)
                    (filter (\<lambda>t. \<not> list_all is_js_whitespace (input_value t))
                       (textInputs s))))"
proof -
  let ?nb = "\<lambda>t. \<not> list_all is_js_whitespace (input_value t)"
  let ?call = "\<lambda>t. DrawText (input_value t)
                        (js_mul (js_div (Fin (input_x t)) (Fin (fst (env_offset env))))
                           (Fin (dim_width (pageDimensions s))))
                        (js_sub (Fin (dim_height (pageDimensions s)))
                           (js_mul (js_div (Fin (input_y t)) (Fin (snd (env_offset env))))
                              (Fin (dim_height (pageDimensions s)))))
                        18"
  obtain s' outcome calls where r: "handleSavePdf env s = (s', outcome, calls)"
    by (cases "handleSavePdf env s")
  have st: "s' = s" using handleSavePdf_state [of env s] r by simp
  have prefix: "(\<exists>rest. map input_value (filter ?nb (textInputs s)) = drawnTexts calls @ rest)
     \<and> (outcome = Downloaded \<longrightarrow>
          drawnTexts calls = map input_value (filter ?nb (textInputs s)))"
  proof (cases "pdfBytes s = None \<or> env_doc env = LoadThrows")
    case True
    then show ?thesis using r by (auto simp: handleSavePdf_def split: option.splits)
  next
    case False
    let ?offs = "if previewRendered s then Some (env_offset env) else None"
    let ?page = "env_doc env \<noteq> NoPages"
    obtain ok1 calls1 where e: "embedSignature env ?offs ?page s = (ok1, calls1)"
      by (cases "embedSignature env ?offs ?page s")
    obtain ok2 calls2 where d:
      "drawTexts env ?offs (pageDimensions s) ?page (textInputs s) = (ok2, calls2)"
      by (cases "drawTexts env ?offs (pageDimensions s) ?page (textInputs s)")
    have t1: "drawnTexts calls1 = []"
      using embedSignature_texts [of env ?offs ?page s] e by simp
    note t2 = drawTexts_texts [OF d, unfolded blank_iff]
    show ?thesis
    proof (cases ok1)
      case True
      then have "handleSavePdf env s =
          (s, if ok2 \<and> env_save_ok env then Downloaded else Alerted ''Failed to save PDF'',
           calls1 @ calls2)"
        using False e d by (auto simp: handleSavePdf_def drawAnnotations_def)
      then show ?thesis using r t1 t2 by (auto simp: drawnTexts_append)
    next
      case False1: False
      then have "handleSavePdf env s = (s, Alerted ''Failed to save PDF'', calls1)"
        using False e by (auto simp: handleSavePdf_def drawAnnotations_def)
      then show ?thesis using r t1 by auto
    qed
  qed
  have all: "outcome = Downloaded
         \<and> (\<exists>pre. drawnTexts pre = [] \<and> calls = pre @ map ?call (filter ?nb (textInputs s)))"
    if h: "pdfBytes s \<noteq> None" "previewRendered s" "env_doc env = FirstPage W H"
       "truthy (signatureData s) \<longrightarrow> env_png env \<noteq> None \<and> env_drawImage_ok env"
       "\<forall>t\<in>set (textInputs s). ?nb t \<longrightarrow> env_drawText_ok env (input_value t)"
       "env_save_ok env"
  proof -
    obtain pre where e: "embedSignature env (Some (env_offset env)) True s = (True, pre)"
      and pre: "drawnTexts pre = []"
      using embedSignature_ok [OF h(4)] by blast
    have d: "drawTexts env (Some (env_offset env)) (pageDimensions s) True (textInputs s)
        = (True, map ?call (filter ?nb (textInputs s)))"
      using drawTexts_all [of "textInputs s" env "fst (env_offset env)" "snd (env_offset env)"
          "pageDimensions s"] h(5)
      by (simp add: blank_iff)
    have "drawAnnotations env s = (True, pre @ map ?call (filter ?nb (textInputs s)))"
      using h(2,3) e d by (simp add: drawAnnotations_def)
    then have "handleSavePdf env s =
        (s, Downloaded, pre @ map ?call (filter ?nb (textInputs s)))"
      using h(1,3,6) by (auto simp: handleSavePdf_def)
    then show ?thesis using r pre by auto
  qed
  show ?thesis
    unfolding r using st prefix all by (simp only: prod.case) blast
qed

text \<open>Witness for C10: of the boxes \<open>Hi\<close>, space-and-tab and empty, only \<open>Hi\<close> is
  drawn, after the signature.\<close>

theorem save_omits_blank_text_witness:
  "pdfBytes typedEditor \<noteq> None \<and> previewRendered typedEditor
   \<and> env_doc (exportEnv (800, 1000)) = FirstPage 612 792
   \<and> env_png (exportEnv (800, 1000)) \<noteq> None \<and> env_drawImage_ok (exportEnv (800, 1000))
   \<and> env_drawText_ok (exportEnv (800, 1000)) [72, 105]
   \<and> env_save_ok (exportEnv (800, 1000))
   \<and> (case handleSavePdf (exportEnv (800, 1000)) typedEditor of (s', outcome, calls) \<Rightarrow>
        s' = typedEditor \<and> outcome = Downloaded \<and> drawnTexts calls = [[72, 105]]
        \<and> calls = [DrawImage (Fin 38.25) (Fin 692.4) (Fin 150) (Fin 60),
                    DrawText [72, 105] (Fin 306) (Fin 396) 18])"
  using save_omits_blank_text [where env = "exportEnv (800, 1000)" and s = typedEditor
      and W = 612 and H = 792]
  by (simp add: export_defs previewRendered_def blank_def js_trim_def is_js_whitespace_def
      initialEditor_def padImage_def signedEditor_def typedEditor_def exportEnv_def)

end
